theory Spec2Isabelle
  imports Complex_Main
begin

section \<open>Python values and exceptions\<close>

text \<open>
  The value \<open>response.json()\<close> returns, and the values stored in the cache: Python's
  \<open>None\<close>, \<open>bool\<close>, \<open>int\<close>, \<open>float\<close>, \<open>str\<close>, \<open>list\<close> and \<open>dict\<close> with string keys.
  A \<open>dict\<close> is the list of its items, read with \<open>map_of\<close>. A finite \<open>float\<close> is the
  rational number it denotes; float overflow, infinities and NaN are outside the model,
  and float arithmetic is taken to be exact.
\<close>

datatype json =
    JNull
  | JBool bool
  | JInt int
  | JFloat rat
  | JStr string
  | JList "json list"
  | JObj "(string \<times> json) list"

text \<open>
  The text of a \<open>ValueError\<close>: a literal of the source, or one of the texts the
  source builds from a float (\<open>f"Invalid latitude: {latitude} (must be -90 to 90)"\<close>) or
  receives from a library (pydantic's \<open>ValidationError\<close> and \<open>json.JSONDecodeError\<close>,
  both subclasses of \<open>ValueError\<close>).
\<close>

datatype message =
    Text string
  | InvalidLatitudeText rat
  | InvalidLongitudeText rat
  | ValidationErrorText
  | JSONDecodeErrorText

text \<open>
  The exceptions of the weather code. \<open>HTTPStatusError\<close> carries the status code of
  the response; \<open>HTTPError\<close> stands for the other subclasses of \<open>httpx.HTTPError\<close>
  (timeouts, connection errors).
\<close>

datatype exn =
    ValueError message
  | KeyError
  | TypeError
  | IndexError
  | AttributeError
  | HTTPStatusError nat
  | HTTPError

definition and_then :: "exn + 'a \<Rightarrow> ('a \<Rightarrow> exn + 'b) \<Rightarrow> exn + 'b" where
  "and_then r f = (case r of Inl e \<Rightarrow> Inl e | Inr x \<Rightarrow> f x)"

text \<open>\<open>v.get(k, d)\<close>: only a \<open>dict\<close> has the method.\<close>

fun py_get :: "json \<Rightarrow> string \<Rightarrow> json \<Rightarrow> exn + json" where
  "py_get (JObj kvs) k d = Inr (case map_of kvs k of None \<Rightarrow> d | Some v \<Rightarrow> v)"
| "py_get _ k d = Inl AttributeError"

text \<open>
  \<open>v[0]\<close>: the first element of a list or the first character of a string
  (\<open>IndexError\<close> when empty), \<open>KeyError\<close> on a \<open>dict\<close> (its keys are strings), and
  \<open>TypeError\<close> on a value that is not subscriptable.
\<close>

fun py_index0 :: "json \<Rightarrow> exn + json" where
  "py_index0 (JList []) = Inl IndexError"
| "py_index0 (JList (x # xs)) = Inr x"
| "py_index0 (JStr []) = Inl IndexError"
| "py_index0 (JStr (c # cs)) = Inr (JStr [c])"
| "py_index0 (JObj kvs) = Inl KeyError"
| "py_index0 _ = Inl TypeError"

text \<open>
  The operand of \<open>(temp_c * 9/5) + 32\<close>: a number (\<open>bool\<close> is a subclass of \<open>int\<close>), or
  \<open>TypeError\<close>: \<open>str * 9\<close> and \<open>list * 9\<close> are defined but their division by 5 is not,
  and \<open>dict * 9\<close> is not defined.
\<close>

fun py_number :: "json \<Rightarrow> exn + rat" where
  "py_number (JInt i) = Inr (of_int i)"
| "py_number (JFloat r) = Inr r"
| "py_number (JBool b) = Inr (if b then 1 else 0)"
| "py_number _ = Inl TypeError"

text \<open>
  \<open>round(x, 1)\<close> and \<open>round(x, 2)\<close>: to the nearest multiple of \<open>10 ^ - n\<close>, a tie
  to the even one.
\<close>

definition round_half_even :: "rat \<Rightarrow> int" where
  "round_half_even y =
     (let f = \<lfloor>y\<rfloor>; d = y - of_int f
      in if d < 1 / 2 then f else if 1 / 2 < d then f + 1
         else if even f then f else f + 1)"

definition py_round :: "rat \<Rightarrow> nat \<Rightarrow> rat" where
  "py_round x n = of_int (round_half_even (x * 10 ^ n)) / 10 ^ n"

section \<open>The schema: \<open>WeatherData\<close>\<close>

record WeatherData =
  temp_c :: rat
  temp_f :: rat
  condition :: string
  description :: "string option"
  humidity :: "int option"
  wind_speed :: "rat option"
  pressure :: "int option"
  visibility :: "int option"
  icon :: "string option"

text \<open>
  The model's validation is pydantic's, in its default (lax) mode. What it makes of a
  string where a number is expected is the library's own parsing and is a parameter.
\<close>

record lax =
  str_as_int :: "string \<Rightarrow> int option"
  str_as_float :: "string \<Rightarrow> rat option"

text \<open>
  One validator per annotation. The argument is \<open>None\<close> when the keyword is not passed;
  the result is \<open>None\<close> when the field is in error, and \<open>Some\<close> of the field's value
  otherwise.
\<close>

fun validate_float :: "lax \<Rightarrow> json \<Rightarrow> rat option" where
  "validate_float c (JFloat r) = Some r"
| "validate_float c (JInt i) = Some (of_int i)"
| "validate_float c (JBool b) = Some (if b then 1 else 0)"
| "validate_float c (JStr s) = str_as_float c s"
| "validate_float c _ = None"

fun validate_int :: "lax \<Rightarrow> json \<Rightarrow> int option" where
  "validate_int c (JInt i) = Some i"
| "validate_int c (JBool b) = Some (if b then 1 else 0)"
| "validate_int c (JFloat r) = (if of_int \<lfloor>r\<rfloor> = r then Some \<lfloor>r\<rfloor> else None)"
| "validate_int c (JStr s) = str_as_int c s"
| "validate_int c _ = None"

fun validate_str :: "json \<Rightarrow> string option" where
  "validate_str (JStr s) = Some s"
| "validate_str _ = None"

definition required :: "(json \<Rightarrow> 'a option) \<Rightarrow> json option \<Rightarrow> 'a option" where
  "required v a = (case a of None \<Rightarrow> None | Some j \<Rightarrow> v j)"

definition optional :: "(json \<Rightarrow> 'a option) \<Rightarrow> json option \<Rightarrow> 'a option option" where
  "optional v a =
     (case a of None \<Rightarrow> Some None | Some JNull \<Rightarrow> Some None
      | Some j \<Rightarrow> (case v j of None \<Rightarrow> None | Some x \<Rightarrow> Some (Some x)))"

definition humidity_ok :: "int option \<Rightarrow> bool" where
  "humidity_ok h = (case h of None \<Rightarrow> True | Some n \<Rightarrow> 0 \<le> n \<and> n \<le> 100)"

definition wind_speed_ok :: "rat option \<Rightarrow> bool" where
  "wind_speed_ok w = (case w of None \<Rightarrow> True | Some x \<Rightarrow> 0 \<le> x)"

text \<open>
  \<open>WeatherData(temp_c=..., ..., icon=...)\<close>: every field is validated, and one
  \<open>ValidationError\<close> is raised when any of them fails.
\<close>

definition WeatherData_init ::
  "lax \<Rightarrow> json option \<Rightarrow> json option \<Rightarrow> json option \<Rightarrow> json option \<Rightarrow> json option \<Rightarrow>
   json option \<Rightarrow> json option \<Rightarrow> json option \<Rightarrow> json option \<Rightarrow> exn + WeatherData" where
  "WeatherData_init c tc tf cond desc hum wind pres vis ic =
     (case (required (validate_float c) tc, required (validate_float c) tf,
            required validate_str cond, optional validate_str desc,
            optional (validate_int c) hum, optional (validate_float c) wind,
            optional (validate_int c) pres, optional (validate_int c) vis,
            optional validate_str ic) of
        (Some a, Some b, Some d, Some e, Some f, Some g, Some h, Some i, Some j) \<Rightarrow>
          if humidity_ok f \<and> wind_speed_ok g
          then Inr \<lparr>temp_c = a, temp_f = b, condition = d, description = e, humidity = f,
                    wind_speed = g, pressure = h, visibility = i, icon = j\<rparr>
          else Inl (ValueError ValidationErrorText)
      | _ \<Rightarrow> Inl (ValueError ValidationErrorText))"

section \<open>\<open>WeatherService._parse_openweather_response\<close>\<close>

text \<open>The body of the \<open>try\<close> block, with every exception it can raise.\<close>

definition parse_body :: "lax \<Rightarrow> json \<Rightarrow> exn + WeatherData option" where
  "parse_body c data =
     and_then (py_get data ''main'' (JObj [])) (\<lambda>main.
     and_then (and_then (py_get data ''weather'' (JList [JObj []])) py_index0) (\<lambda>weather.
     and_then (py_get data ''wind'' (JObj [])) (\<lambda>wind.
     and_then (py_get main ''temp'' JNull) (\<lambda>temp.
       if temp = JNull then Inr None
       else
         and_then (py_number temp) (\<lambda>t.
         and_then (py_get weather ''main'' (JStr ''Unknown'')) (\<lambda>cond.
         and_then (py_get weather ''description'' JNull) (\<lambda>desc.
         and_then (py_get main ''humidity'' JNull) (\<lambda>hum.
         and_then (py_get wind ''speed'' JNull) (\<lambda>speed.
         and_then (py_get main ''pressure'' JNull) (\<lambda>pres.
         and_then (py_get data ''visibility'' JNull) (\<lambda>vis.
         and_then (py_get weather ''icon'' JNull) (\<lambda>ic.
         and_then (WeatherData_init c
                 (Some (JFloat (py_round t 1)))
                 (Some (JFloat (py_round (t * 9 / 5 + 32) 1)))
                 (Some cond) (Some desc) (Some hum) (Some speed) (Some pres) (Some vis)
                 (Some ic))
              (\<lambda>w. Inr (Some w))))))))))))))"

text \<open>
  \<open>except (KeyError, ValueError, TypeError)\<close>: these three become \<open>None\<close>; any other
  exception leaves the function.
\<close>

definition parse_openweather_response :: "lax \<Rightarrow> json \<Rightarrow> exn + WeatherData option" where
  "parse_openweather_response c data =
     (case parse_body c data of
        Inl KeyError \<Rightarrow> Inr None
      | Inl (ValueError m) \<Rightarrow> Inr None
      | Inl TypeError \<Rightarrow> Inr None
      | r \<Rightarrow> r)"

section \<open>The cache\<close>

text \<open>
  Modelled from the spec: \<open>app.core.scoped_cache.ScopedCache\<close>, the cache class the
  service imports; its source is not part of the files at hand. An entry is kept under
  \<open>(scope_id, cache_type)\<close> in the namespace of the service and holds a value and the
  time it expires at. \<open>get\<close> returns the value only while the expiry has not passed
  (entries whose expiry is in the past are absent); \<open>set\<close> stores or replaces the entry
  with expiry \<open>now + ttl_seconds\<close>. Time is in seconds.
\<close>

record cache_entry =
  entry_value :: json
  expires_at :: nat

type_synonym ScopedCache = "string \<times> string \<Rightarrow> cache_entry option"

text \<open>
  Modelled from the spec: \<open>ScopedCache.get\<close>, which is missing with the class. The value
  of the entry under the exact key while its expiry has not passed, otherwise absent.
\<close>

definition cache_get :: "ScopedCache \<Rightarrow> nat \<Rightarrow> string \<Rightarrow> string \<Rightarrow> json option" where
  "cache_get ca t scope_id cache_type =
     (case ca (scope_id, cache_type) of
        None \<Rightarrow> None
      | Some e \<Rightarrow> if expires_at e < t then None else Some (entry_value e))"

text \<open>
  Modelled from the spec: \<open>ScopedCache.set\<close>, which is missing with the class. The entry
  is stored or replaced, with the expiry \<open>now + ttl_seconds\<close>.
\<close>

definition cache_set ::
  "ScopedCache \<Rightarrow> nat \<Rightarrow> string \<Rightarrow> string \<Rightarrow> json \<Rightarrow> nat \<Rightarrow> ScopedCache" where
  "cache_set ca t scope_id cache_type v ttl_seconds =
     ca((scope_id, cache_type) \<mapsto> \<lparr>entry_value = v, expires_at = t + ttl_seconds\<rparr>)"

definition CACHE_TTL_SECONDS :: nat where
  "CACHE_TTL_SECONDS = 30 * 60"

section \<open>\<open>WeatherService\<close>\<close>

subsection \<open>The cache key\<close>

fun str_nat :: "nat \<Rightarrow> string" where
  "str_nat n =
     (if n < 10 then [''0123456789'' ! n]
      else str_nat (n div 10) @ [''0123456789'' ! (n mod 10)])"

text \<open>
  The text of \<open>f"{round(x, 2)}"\<close>: the shortest decimal that reads back as the rounded
  float, with at least one digit after the point. A negative \<open>x\<close> that rounds to zero
  gives the float \<open>-0.0\<close>, printed with its sign. (Positional notation, which Python
  uses below \<open>1e16\<close>.)
\<close>

definition str_round2 :: "rat \<Rightarrow> string" where
  "str_round2 x =
     (let h = nat \<bar>round_half_even (x * 100)\<bar>;
          frac = (if h mod 10 = 0 then str_nat (h mod 100 div 10)
                  else str_nat (h mod 100 div 10) @ str_nat (h mod 10))
      in (if x < 0 then ''-'' else []) @ str_nat (h div 100) @ ''.'' @ frac)"

definition get_cache_key :: "rat \<Rightarrow> rat \<Rightarrow> string \<times> string" where
  "get_cache_key latitude longitude =
     (str_round2 latitude @ '','' @ str_round2 longitude, ''weather'')"

subsection \<open>The credential\<close>

text \<open>The characters \<open>str.strip()\<close> removes, among the ASCII ones.\<close>

definition py_isspace :: "char \<Rightarrow> bool" where
  "py_isspace ch = (of_char ch \<in> {9, 10, 11, 12, 13, 28, 29, 30, 31, 32 :: nat})"

definition py_strip :: "string \<Rightarrow> string" where
  "py_strip s = rev (dropWhile py_isspace (rev (dropWhile py_isspace s)))"

definition not_configured_message :: string where
  "not_configured_message =
     ''Weather service is not configured. Please set WEATHER_API_KEY in environment variables.''"

definition invalid_api_key_message :: string where
  "invalid_api_key_message =
     ''Invalid OpenWeather API key. Please verify WEATHER_API_KEY is correct, '' @
     ''activated, and has no extra whitespace. '' @
     ''Get your API key at: https://openweathermap.org/api''"

text \<open>
  \<open>settings.weather_api_key\<close> is the one setting the service reads; it is \<open>None\<close> when
  the variable is unset.
\<close>

definition get_api_key :: "string option \<Rightarrow> exn + string" where
  "get_api_key key =
     (case key of
        None \<Rightarrow> Inl (ValueError (Text not_configured_message))
      | Some k \<Rightarrow>
          if k = [] \<or> py_strip k = [] then Inl (ValueError (Text not_configured_message))
          else Inr (py_strip k))"

definition is_enabled :: "string option \<Rightarrow> bool" where
  "is_enabled key =
     (case get_api_key key of
        Inr k \<Rightarrow> True
      | Inl e \<Rightarrow> False)"

subsection \<open>The environment and the state\<close>

text \<open>
  A request to the provider carries \<open>lat\<close>, \<open>lon\<close> and \<open>appid\<close> (\<open>units\<close> is always
  \<open>metric\<close>). The provider answers with a status code and a body, \<open>None\<close> when the
  body is not JSON, or the request fails in transport.
\<close>

record request =
  lat :: rat
  lon :: rat
  appid :: string

datatype response = Response nat "json option" | Failed

record env =
  pydantic :: lax
  weather_api_key :: "string option"
  upstream :: "request \<Rightarrow> response"
  now :: nat

record state =
  cache :: ScopedCache
  requests :: "request list"

subsection \<open>Reading and writing the cache\<close>

text \<open>
  \<open>WeatherData(**result_data)\<close>: the items of the dict are the keyword arguments;
  unknown keys are ignored. Anything but a mapping cannot be unpacked (\<open>TypeError\<close>).
\<close>

fun WeatherData_kwargs :: "lax \<Rightarrow> json \<Rightarrow> exn + WeatherData" where
  "WeatherData_kwargs c (JObj kvs) =
     WeatherData_init c (map_of kvs ''temp_c'') (map_of kvs ''temp_f'')
       (map_of kvs ''condition'') (map_of kvs ''description'') (map_of kvs ''humidity'')
       (map_of kvs ''wind_speed'') (map_of kvs ''pressure'') (map_of kvs ''visibility'')
       (map_of kvs ''icon'')"
| "WeatherData_kwargs c _ = Inl TypeError"

definition dump_opt :: "('a \<Rightarrow> json) \<Rightarrow> 'a option \<Rightarrow> json" where
  "dump_opt f x = (case x of None \<Rightarrow> JNull | Some v \<Rightarrow> f v)"

definition model_dump :: "WeatherData \<Rightarrow> json" where
  "model_dump w =
     JObj [(''temp_c'', JFloat (temp_c w)), (''temp_f'', JFloat (temp_f w)),
           (''condition'', JStr (condition w)), (''description'', dump_opt JStr (description w)),
           (''humidity'', dump_opt JInt (humidity w)),
           (''wind_speed'', dump_opt JFloat (wind_speed w)),
           (''pressure'', dump_opt JInt (pressure w)),
           (''visibility'', dump_opt JInt (visibility w)),
           (''icon'', dump_opt JStr (icon w))]"

text \<open>\<open>_get_from_cache\<close>: every exception of its body becomes \<open>None\<close>.\<close>

definition get_from_cache :: "env \<Rightarrow> ScopedCache \<Rightarrow> rat \<Rightarrow> rat \<Rightarrow> WeatherData option" where
  "get_from_cache E ca latitude longitude =
     (case get_cache_key latitude longitude of (scope_id, cache_type) \<Rightarrow>
        (case cache_get ca (now E) scope_id cache_type of
           None \<Rightarrow> None
         | Some cached_data \<Rightarrow>
             (case py_get cached_data ''result'' JNull of
                Inl e \<Rightarrow> None
              | Inr result_data \<Rightarrow>
                  if result_data = JNull then None
                  else (case WeatherData_kwargs (pydantic E) result_data of
                          Inl e \<Rightarrow> None
                        | Inr w \<Rightarrow> Some w))))"

definition save_to_cache :: "env \<Rightarrow> ScopedCache \<Rightarrow> rat \<Rightarrow> rat \<Rightarrow> WeatherData \<Rightarrow> ScopedCache" where
  "save_to_cache E ca latitude longitude weather_data =
     (case get_cache_key latitude longitude of (scope_id, cache_type) \<Rightarrow>
        cache_set ca (now E) scope_id cache_type
          (JObj [(''result'', model_dump weather_data)]) CACHE_TTL_SECONDS)"

subsection \<open>\<open>fetch_weather\<close>\<close>

text \<open>
  The request, once it is sent: \<open>raise_for_status\<close> raises on every status outside
  \<open>200..299\<close>; the handler turns 401 into a \<open>ValueError\<close> and re-raises the rest; a
  transport failure is re-raised; a body that is not JSON is a \<open>JSONDecodeError\<close>,
  which no handler of the function catches, as is whatever the parser raises.
\<close>

definition call_provider ::
  "env \<Rightarrow> string \<Rightarrow> rat \<Rightarrow> rat \<Rightarrow> state \<Rightarrow> (exn + WeatherData option) \<times> state" where
  "call_provider E api_key latitude longitude s =
     (let params = \<lparr>lat = latitude, lon = longitude, appid = api_key\<rparr>;
          s1 = s\<lparr>requests := requests s @ [params]\<rparr>
      in case upstream E params of
           Failed \<Rightarrow> (Inl HTTPError, s1)
         | Response status_code body \<Rightarrow>
             if \<not> (200 \<le> status_code \<and> status_code \<le> 299) then
               (if status_code = 401
                then (Inl (ValueError (Text invalid_api_key_message)), s1)
                else (Inl (HTTPStatusError status_code), s1))
             else
               (case body of
                  None \<Rightarrow> (Inl (ValueError JSONDecodeErrorText), s1)
                | Some data \<Rightarrow>
                    (case parse_openweather_response (pydantic E) data of
                       Inl e \<Rightarrow> (Inl e, s1)
                     | Inr None \<Rightarrow> (Inr None, s1)
                     | Inr (Some weather_data) \<Rightarrow>
                         (Inr (Some weather_data),
                          s1\<lparr>cache := save_to_cache E (cache s1) latitude longitude
                                         weather_data\<rparr>))))"

definition fetch_weather :: "env \<Rightarrow> rat \<Rightarrow> rat \<Rightarrow> state \<Rightarrow> (exn + WeatherData option) \<times> state" where
  "fetch_weather E latitude longitude s =
     (if \<not> (- 90 \<le> latitude \<and> latitude \<le> 90)
        then (Inl (ValueError (InvalidLatitudeText latitude)), s)
      else if \<not> (- 180 \<le> longitude \<and> longitude \<le> 180)
        then (Inl (ValueError (InvalidLongitudeText longitude)), s)
      else
        (case get_api_key (weather_api_key E) of
           Inl e \<Rightarrow> (Inl e, s)
         | Inr api_key \<Rightarrow>
             (case get_from_cache E (cache s) latitude longitude of
                Some cached_data \<Rightarrow> (Inr (Some cached_data), s)
              | None \<Rightarrow> call_provider E api_key latitude longitude s)))"

section \<open>The endpoint \<open>POST /weather/fetch\<close>\<close>

text \<open>
  The handler returns one of its two response models (status 200) or raises an
  \<open>HTTPException\<close> with a status code and a detail. The coordinates have passed the
  request schema. The timestamp is the time of the call.
\<close>

datatype payload =
    WeatherFetchResponse WeatherData string nat
  | WeatherServiceDisabledResponse bool message

datatype http_exception = HTTPException nat string

definition disabled_message :: string where
  "disabled_message =
     ''Weather service is not configured. Please set WEATHER_API_KEY in environment '' @
     ''variables of your Journiv backend.''"

definition unavailable_detail :: string where
  "unavailable_detail = ''Weather service temporarily unavailable. Please try again later.''"

definition internal_error_detail :: string where
  "internal_error_detail = ''An error occurred while fetching weather data''"

text \<open>
  The \<open>HTTPException\<close> raised for a result that is \<open>None\<close> (status 500, detail
  \<open>Failed to parse weather data\<close>) is raised inside the \<open>try\<close> block; it is neither a
  \<open>ValueError\<close> nor an httpx error, so the last handler (\<open>except Exception\<close>) catches
  it and raises its own.
\<close>

definition fetch_weather_endpoint ::
  "env \<Rightarrow> rat \<Rightarrow> rat \<Rightarrow> state \<Rightarrow> (http_exception + payload) \<times> state" where
  "fetch_weather_endpoint E latitude longitude s =
     (if \<not> is_enabled (weather_api_key E)
      then (Inr (WeatherServiceDisabledResponse False (Text disabled_message)), s)
      else
        (case fetch_weather E latitude longitude s of (r, s') \<Rightarrow>
           (case r of
              Inr (Some weather_data) \<Rightarrow>
                Inr (WeatherFetchResponse weather_data ''openweather'' (now E))
            | Inr None \<Rightarrow> Inl (HTTPException 500 internal_error_detail)
            | Inl (ValueError m) \<Rightarrow> Inr (WeatherServiceDisabledResponse False m)
            | Inl (HTTPStatusError status_code) \<Rightarrow>
                if status_code = 401
                then Inr (WeatherServiceDisabledResponse False (Text invalid_api_key_message))
                else Inl (HTTPException 503 unavailable_detail)
            | Inl HTTPError \<Rightarrow> Inl (HTTPException 503 unavailable_detail)
            | Inl e \<Rightarrow> Inl (HTTPException 500 internal_error_detail),
            s')))"

section \<open>Users and the admin role\<close>

datatype user_role = Admin | User

text \<open>
  A row of the \<open>user\<close> table before the migration (the columns the role logic reads),
  and after it, with the \<open>role\<close> column. \<open>id\<close> is the primary key.
\<close>

record account =
  user_id :: nat
  created_at :: nat
  is_active :: bool

record user = account +
  role :: user_role

definition admin_count :: "user list \<Rightarrow> nat" where
  "admin_count users = length (filter (\<lambda>u. role u = Admin) users)"

subsection \<open>The migration \<open>abc123def456\<close>\<close>




subsection \<open>Registration\<close>



subsection \<open>The last-admin guards\<close>

text \<open>
  Modelled from the spec: the deletion and the role change behind
  \<open>DELETE /admin/users/{id}\<close> and \<open>PATCH /admin/users/{id}\<close>, whose source is not part
  of the files at hand. A deletion fails with \<open>LastAdminError\<close> when its target is
  currently the only admin; a role change to \<open>user\<close> fails with it when its target is
  the last remaining admin; both are decided on the current count of admins, and every
  other deletion or role change succeeds. The error is answered with status 400 and a
  message containing \<open>last admin\<close>, success with status 200.
\<close>

datatype admin_error = LastAdminError

text \<open>
  Modelled from the spec: the test of the guards, which is missing with the endpoints. The
  target is an admin and the current count of admins does not exceed one.
\<close>

definition is_last_admin :: "nat \<Rightarrow> user list \<Rightarrow> bool" where
  "is_last_admin uid users =
     (case find (\<lambda>u. user_id u = uid) users of
        None \<Rightarrow> False
      | Some u \<Rightarrow> role u = Admin \<and> admin_count users \<le> 1)"

text \<open>
  Modelled from the spec: the deletion of a user, which is missing with the endpoints. It
  fails when the target is the last admin and removes the target otherwise.
\<close>

definition delete_user :: "nat \<Rightarrow> user list \<Rightarrow> admin_error + user list" where
  "delete_user uid users =
     (if is_last_admin uid users then Inl LastAdminError
      else Inr (filter (\<lambda>u. user_id u \<noteq> uid) users))"

text \<open>
  Modelled from the spec: the role change of a user, which is missing with the endpoints.
  It fails when it would set the last admin's role to \<open>user\<close> and sets the role of the
  target otherwise.
\<close>

definition update_role :: "nat \<Rightarrow> user_role \<Rightarrow> user list \<Rightarrow> admin_error + user list" where
  "update_role uid r users =
     (if r = User \<and> is_last_admin uid users then Inl LastAdminError
      else Inr (map (\<lambda>u. if user_id u = uid then u\<lparr>role := r\<rparr> else u) users))"

text \<open>
  Modelled from the spec: the operations the enforcer decides on, a deletion and a role
  change, each checked by its guard before it is committed.
\<close>

datatype admin_op = Delete nat | SetRole nat user_role

fun enforce :: "admin_op \<Rightarrow> user list \<Rightarrow> admin_error + user list" where
  "enforce (Delete uid) users = delete_user uid users"
| "enforce (SetRole uid r) users = update_role uid r users"

text \<open>
  Modelled from the spec: the message of the 400 answer, which is missing with the
  endpoints. The spec fixes only that it contains \<open>last admin\<close>.
\<close>

definition last_admin_detail :: string where
  "last_admin_detail = ''Cannot remove the last admin''"

text \<open>
  Modelled from the spec: the answer of the endpoints to a request, which are missing, and
  the store after it. \<open>LastAdminError\<close> is answered with status 400 and the operation
  commits nothing; a success is answered with status 200.
\<close>

definition admin_request :: "admin_op \<Rightarrow> user list \<Rightarrow> (nat \<times> string) \<times> user list" where
  "admin_request op users =
     (case enforce op users of
        Inl LastAdminError \<Rightarrow> ((400, last_admin_detail), users)
      | Inr users' \<Rightarrow> ((200, []), users'))"

text \<open>Modelled from the spec: a sequence of requests, each on the store the last one left.\<close>

fun admin_requests :: "admin_op list \<Rightarrow> user list \<Rightarrow> user list" where
  "admin_requests [] users = users"
| "admin_requests (op # ops) users = admin_requests ops (snd (admin_request op users))"

text \<open>Python's \<open>sub in s\<close> on strings.\<close>

primrec str_contains :: "string \<Rightarrow> string \<Rightarrow> bool" where
  "str_contains sub [] = (sub = [])"
| "str_contains sub (c # cs) = (take (length sub) (c # cs) = sub \<or> str_contains sub cs)"

section \<open>Vocabulary of the statements\<close>

text \<open>
  The temperature of a payload: the value under \<open>main.temp\<close>, when \<open>main\<close> is an
  object that holds one that is not \<open>null\<close>.
\<close>

definition temperature_of :: "json \<Rightarrow> json option" where
  "temperature_of data =
     (case data of
        JObj kvs \<Rightarrow>
          (case map_of kvs ''main'' of
             Some (JObj m) \<Rightarrow>
               (case map_of m ''temp'' of
                  Some t \<Rightarrow> if t = JNull then None else Some t
                | None \<Rightarrow> None)
           | _ \<Rightarrow> None)
      | _ \<Rightarrow> None)"








text \<open>What every instance of \<open>WeatherData\<close> satisfies: the bounds of its fields.\<close>

definition valid_reading :: "WeatherData \<Rightarrow> bool" where
  "valid_reading w = (humidity_ok (humidity w) \<and> wind_speed_ok (wind_speed w))"

text \<open>An exception of the coordinate validation.\<close>

fun invalid_coordinate :: "exn \<Rightarrow> bool" where
  "invalid_coordinate (ValueError (InvalidLatitudeText x)) = True"
| "invalid_coordinate (ValueError (InvalidLongitudeText x)) = True"
| "invalid_coordinate _ = False"

section \<open>Concrete inputs\<close>

definition no_coercion :: lax where
  "no_coercion = \<lparr>str_as_int = (\<lambda>s. None), str_as_float = (\<lambda>s. None)\<rparr>"

text \<open>The reading of the schema's example, and a payload that parses to it.\<close>

definition example_reading :: WeatherData where
  "example_reading =
     \<lparr>temp_c = 37 / 2, temp_f = 653 / 10, condition = ''Clear'',
      description = Some ''clear sky'', humidity = Some 65, wind_speed = Some (7 / 2),
      pressure = Some 1013, visibility = Some 10000, icon = Some ''01d''\<rparr>"




text \<open>Payloads with a temperature and a malformed \<open>weather\<close> entry, and one without.\<close>

definition payload_weather_null :: json where
  "payload_weather_null = JObj [(''main'', JObj [(''temp'', JInt 20)]), (''weather'', JNull)]"


definition payload_no_temp :: json where
  "payload_no_temp = JObj [(''main'', JObj [(''humidity'', JInt 65)])]"

text \<open>
  A configured service whose provider answers every request with the given response,
  at time 1000, and the same service without a credential.
\<close>

definition answering :: "response \<Rightarrow> env" where
  "answering r =
     \<lparr>pydantic = no_coercion, weather_api_key = Some ''secret'', upstream = (\<lambda>q. r),
      now = 1000\<rparr>"

definition unconfigured :: env where
  "unconfigured =
     \<lparr>pydantic = no_coercion, weather_api_key = None, upstream = (\<lambda>q. Failed), now = 1000\<rparr>"

definition empty_state :: state where
  "empty_state = \<lparr>cache = Map.empty, requests = []\<rparr>"

text \<open>The state whose cache holds the example reading for San Francisco until 2000.\<close>

definition cached_state :: state where
  "cached_state =
     \<lparr>cache = [(''37.77,-122.42'', ''weather'') \<mapsto>
                 \<lparr>entry_value = JObj [(''result'', model_dump example_reading)],
                  expires_at = 2000\<rparr>],
      requests = []\<rparr>"

text \<open>Two admins and a regular user; a single admin and a regular user; three legacy rows.\<close>

definition mk_user :: "nat \<Rightarrow> nat \<Rightarrow> user_role \<Rightarrow> user" where
  "mk_user i t r = \<lparr>user_id = i, created_at = t, is_active = True, role = r\<rparr>"

definition two_admins :: "user list" where
  "two_admins = [mk_user 1 10 Admin, mk_user 2 20 User, mk_user 3 30 Admin]"

definition one_admin :: "user list" where
  "one_admin = [mk_user 1 10 Admin, mk_user 2 20 User]"



section \<open>Facts about the parser\<close>

lemma and_then_Inr_iff: "and_then r f = Inr y \<longleftrightarrow> (\<exists>x. r = Inr x \<and> f x = Inr y)"
  by (cases r) (simp_all add: and_then_def)

lemma and_then_Inr [simp]: "and_then (Inr x) f = f x"
  by (simp add: and_then_def)

lemma and_then_Inl [simp]: "and_then (Inl e) f = Inl e"
  by (simp add: and_then_def)

lemma py_get_Inr_iff:
  "py_get j k d = Inr v \<longleftrightarrow>
     (\<exists>kvs. j = JObj kvs \<and> v = (case map_of kvs k of None \<Rightarrow> d | Some x \<Rightarrow> x))"
  by (cases j) auto


lemma WeatherData_init_Inr_iff:
  "WeatherData_init c tc tf cond desc hum wind pres vis ic = Inr w \<longleftrightarrow>
     required (validate_float c) tc = Some (temp_c w) \<and>
     required (validate_float c) tf = Some (temp_f w) \<and>
     required validate_str cond = Some (condition w) \<and>
     optional validate_str desc = Some (description w) \<and>
     optional (validate_int c) hum = Some (humidity w) \<and>
     optional (validate_float c) wind = Some (wind_speed w) \<and>
     optional (validate_int c) pres = Some (pressure w) \<and>
     optional (validate_int c) vis = Some (visibility w) \<and>
     optional validate_str ic = Some (icon w) \<and>
     humidity_ok (humidity w) \<and> wind_speed_ok (wind_speed w)"
  by (cases w) (auto simp: WeatherData_init_def split: option.splits)


lemma parse_body_Some:
  assumes "parse_body c data = Inr (Some w)"
  shows "\<exists>temp t. temperature_of data = Some temp \<and> py_number temp = Inr t \<and>
           temp_c w = py_round t 1 \<and> temp_f w = py_round (t * 9 / 5 + 32) 1"
  using assms
  by (auto simp add: parse_body_def and_then_Inr_iff py_get_Inr_iff temperature_of_def
        WeatherData_init_Inr_iff required_def
      split: if_splits option.splits json.splits)


lemma parse_Some_body:
  "parse_openweather_response c data = Inr (Some w) \<Longrightarrow> parse_body c data = Inr (Some w)"
  by (auto simp: parse_openweather_response_def split: sum.splits exn.splits)

lemma parse_not_caught:
  "parse_openweather_response c data = Inl e \<Longrightarrow>
     e \<noteq> KeyError \<and> e \<noteq> TypeError \<and> (\<forall>m. e \<noteq> ValueError m)"
  by (auto simp: parse_openweather_response_def split: sum.splits exn.splits)

lemma parse_no_temperature:
  "temperature_of data = None \<Longrightarrow> parse_openweather_response c data \<noteq> Inr (Some w)"
  using parse_body_Some [of c data w] parse_Some_body [of c data w] by auto





lemma first_weather:
  "map_of kvs ''weather'' = None \<and> wd = [] \<or>
   (\<exists>ws. map_of kvs ''weather'' = Some (JList (JObj wd # ws))) \<Longrightarrow>
     and_then (py_get (JObj kvs) ''weather'' (JList [JObj []])) py_index0 = Inr (JObj wd)"
  by auto

lemma the_wind:
  "map_of kvs ''wind'' = None \<and> wn = [] \<or> map_of kvs ''wind'' = Some (JObj wn) \<Longrightarrow>
     py_get (JObj kvs) ''wind'' (JObj []) = Inr (JObj wn)"
  by auto

lemma parse_no_temperature_None:
  assumes "temperature_of (JObj kvs) = None"
    and "map_of kvs ''main'' = None \<or> (\<exists>m. map_of kvs ''main'' = Some (JObj m))"
    and "map_of kvs ''weather'' = None \<and> wd = [] \<or>
         (\<exists>ws. map_of kvs ''weather'' = Some (JList (JObj wd # ws)))"
    and "map_of kvs ''wind'' = None \<and> wn = [] \<or> map_of kvs ''wind'' = Some (JObj wn)"
  shows "parse_openweather_response c (JObj kvs) = Inr None"
proof -
  from assms(1,2) obtain m where m: "py_get (JObj kvs) ''main'' (JObj []) = Inr (JObj m)"
    and t: "py_get (JObj m) ''temp'' JNull = Inr JNull"
    by (auto simp: temperature_of_def split: option.splits if_splits)
  have "parse_body c (JObj kvs) = Inr None"
    unfolding parse_body_def
    using first_weather [OF assms(3)] the_wind [OF assms(4)] m t
    by simp
  then show ?thesis
    by (simp add: parse_openweather_response_def)
qed

text \<open>
  Exceptions that the handler of the parser does not name leave it: an empty \<open>weather\<close>
  list (\<open>IndexError\<close>), and a first element of it that is not an object
  (\<open>AttributeError\<close>).
\<close>

lemma parse_escapes:
  "parse_openweather_response no_coercion
     (JObj [(''main'', JObj [(''temp'', JInt 20)]), (''weather'', JList [])]) = Inl IndexError"
  "parse_openweather_response no_coercion
     (JObj [(''main'', JObj [(''temp'', JInt 20)]), (''weather'', JList [JStr ''rain''])]) =
     Inl AttributeError"
  by code_simp+

subsection \<open>Rounding\<close>




section \<open>The claims about the parser\<close>







section \<open>Facts about the service\<close>

lemma get_api_key_Inl:
  "get_api_key key = Inl e \<Longrightarrow> e = ValueError (Text not_configured_message)"
  by (auto simp: get_api_key_def split: option.splits if_splits)

lemma is_enabled_iff: "is_enabled key \<longleftrightarrow> (\<exists>k. get_api_key key = Inr k)"
  by (cases "get_api_key key") (simp_all add: is_enabled_def)

lemma dump_opt_str: "optional validate_str (Some (dump_opt JStr x)) = Some x"
  by (cases x) (simp_all add: dump_opt_def optional_def)

lemma dump_opt_int: "optional (validate_int c) (Some (dump_opt JInt x)) = Some x"
  by (cases x) (simp_all add: dump_opt_def optional_def)

lemma dump_opt_float: "optional (validate_float c) (Some (dump_opt JFloat x)) = Some x"
  by (cases x) (simp_all add: dump_opt_def optional_def)

lemma kwargs_model_dump:
  assumes "valid_reading w"
  shows "WeatherData_kwargs c (model_dump w) = Inr w"
  using assms
  by (simp add: model_dump_def WeatherData_init_Inr_iff valid_reading_def required_def
        dump_opt_str dump_opt_int dump_opt_float)

lemma model_dump_not_null: "model_dump w \<noteq> JNull"
  by (simp add: model_dump_def)

lemma get_from_cache_entry:
  assumes "ca (get_cache_key latitude longitude) = Some e"
    and "now E \<le> expires_at e"
    and "entry_value e = JObj [(''result'', model_dump w)]"
    and "valid_reading w"
  shows "get_from_cache E ca latitude longitude = Some w"
  using assms
  by (cases "get_cache_key latitude longitude")
     (simp add: get_from_cache_def cache_get_def model_dump_not_null kwargs_model_dump)

lemma save_to_cache_entry:
  "save_to_cache E ca latitude longitude w (get_cache_key latitude longitude) =
     Some \<lparr>entry_value = JObj [(''result'', model_dump w)],
           expires_at = now E + CACHE_TTL_SECONDS\<rparr>"
  by (cases "get_cache_key latitude longitude") (simp add: save_to_cache_def cache_set_def)

lemma get_after_save:
  assumes "valid_reading w"
    and "now E' \<le> now E + CACHE_TTL_SECONDS"
    and "get_cache_key latitude' longitude' = get_cache_key latitude longitude"
  shows "get_from_cache E' (save_to_cache E ca latitude longitude w) latitude' longitude' = Some w"
proof (rule get_from_cache_entry)
  show "save_to_cache E ca latitude longitude w (get_cache_key latitude' longitude') =
          Some \<lparr>entry_value = JObj [(''result'', model_dump w)],
                expires_at = now E + CACHE_TTL_SECONDS\<rparr>"
    unfolding assms(3) by (rule save_to_cache_entry)
qed (use assms in simp_all)



lemma call_provider_no_reading:
  assumes "\<forall>w. fst (call_provider E k latitude longitude s) \<noteq> Inr (Some w)"
  shows "cache (snd (call_provider E k latitude longitude s)) = cache s"
  using assms
  by (auto simp: call_provider_def Let_def
      split: response.splits option.splits sum.splits if_splits)

lemma call_provider_not_coordinate:
  assumes "fst (call_provider E k latitude longitude s) = Inl e"
  shows "\<not> invalid_coordinate e"
  using assms parse_not_caught [of "pydantic E" _ e]
  by (cases e)
     (auto simp: call_provider_def Let_def
      split: response.splits option.splits sum.splits if_splits)

lemma call_provider_payload:
  assumes "upstream E \<lparr>lat = latitude, lon = longitude, appid = k\<rparr> =
             Response status_code (Some data)"
    and "fst (call_provider E k latitude longitude s) = Inr (Some w)"
  shows "parse_openweather_response (pydantic E) data = Inr (Some w)"
  using assms
  by (auto simp: call_provider_def Let_def split: option.splits sum.splits if_splits)

section \<open>The claims about the service and the endpoint\<close>

text \<open>
  C9. A latitude outside \<open>[-90, 90]\<close> or a longitude outside \<open>[-180, 180]\<close> makes
  \<open>fetch_weather\<close> raise the error of the coordinate validation, whatever the credential
  and the cache are, and without touching the state: the validation comes before the
  credential check and before any access to the cache. With both coordinates in range no
  error of the coordinate validation is raised.
\<close>

theorem fetch_weather_validates_first:
  "(\<not> (- 90 \<le> latitude \<and> latitude \<le> 90) \<longrightarrow>
      fetch_weather E latitude longitude s = (Inl (ValueError (InvalidLatitudeText latitude)), s)) \<and>
   (- 90 \<le> latitude \<and> latitude \<le> 90 \<and> \<not> (- 180 \<le> longitude \<and> longitude \<le> 180) \<longrightarrow>
      fetch_weather E latitude longitude s =
        (Inl (ValueError (InvalidLongitudeText longitude)), s)) \<and>
   (- 90 \<le> latitude \<and> latitude \<le> 90 \<and> - 180 \<le> longitude \<and> longitude \<le> 180 \<longrightarrow>
      (\<forall>e. fst (fetch_weather E latitude longitude s) = Inl e \<longrightarrow> \<not> invalid_coordinate e))"
proof (intro conjI impI allI)
  fix e
  assume range: "- 90 \<le> latitude \<and> latitude \<le> 90 \<and> - 180 \<le> longitude \<and> longitude \<le> 180"
    and e: "fst (fetch_weather E latitude longitude s) = Inl e"
  show "\<not> invalid_coordinate e"
  proof (cases "get_api_key (weather_api_key E)")
    case (Inl x)
    with range e get_api_key_Inl [OF Inl] show ?thesis
      by (auto simp: fetch_weather_def)
  next
    case (Inr k)
    with range e call_provider_not_coordinate [of E k latitude longitude s e] show ?thesis
      by (auto simp: fetch_weather_def split: option.splits)
  qed
qed (simp_all add: fetch_weather_def)

theorem fetch_weather_validates_first_witness:
  "fetch_weather unconfigured 91 0 cached_state =
     (Inl (ValueError (InvalidLatitudeText 91)), cached_state) \<and>
   fetch_weather unconfigured 0 (- 181) cached_state =
     (Inl (ValueError (InvalidLongitudeText (- 181))), cached_state) \<and>
   fst (fetch_weather unconfigured 0 0 cached_state) =
     Inl (ValueError (Text not_configured_message)) \<and>
   \<not> invalid_coordinate (ValueError (Text not_configured_message))"
proof -
  have e: "fst (fetch_weather unconfigured 0 0 cached_state) =
             Inl (ValueError (Text not_configured_message))"
    by (simp add: fetch_weather_def unconfigured_def get_api_key_def)
  show ?thesis
    using fetch_weather_validates_first [of 91 unconfigured 0 cached_state]
      fetch_weather_validates_first [of 0 unconfigured "- 181" cached_state]
      fetch_weather_validates_first [of 0 unconfigured 0 cached_state] e
    by simp
qed

text \<open>
  C8. When the provider answers the request of \<open>fetch_weather\<close> with status 401 (the
  coordinates are in range, a credential is configured and the cache has no reading, so
  that the request is sent), the service raises a \<open>ValueError\<close> with the guidance on the
  credential, not the \<open>HTTPStatusError\<close>; the endpoint answers with the disabled
  response (status 200) carrying that message; and exactly one request has been sent.
\<close>

theorem upstream_401:
  assumes "- 90 \<le> latitude \<and> latitude \<le> 90" and "- 180 \<le> longitude \<and> longitude \<le> 180"
    and "get_api_key (weather_api_key E) = Inr k"
    and "get_from_cache E (cache s) latitude longitude = None"
    and "upstream E \<lparr>lat = latitude, lon = longitude, appid = k\<rparr> = Response 401 body"
  shows "fetch_weather E latitude longitude s =
           (Inl (ValueError (Text invalid_api_key_message)),
            s\<lparr>requests := requests s @ [\<lparr>lat = latitude, lon = longitude, appid = k\<rparr>]\<rparr>) \<and>
         fst (fetch_weather_endpoint E latitude longitude s) =
           Inr (WeatherServiceDisabledResponse False (Text invalid_api_key_message))"
proof -
  have f: "fetch_weather E latitude longitude s =
           (Inl (ValueError (Text invalid_api_key_message)),
            s\<lparr>requests := requests s @ [\<lparr>lat = latitude, lon = longitude, appid = k\<rparr>]\<rparr>)"
    using assms by (simp add: fetch_weather_def call_provider_def Let_def)
  moreover have "is_enabled (weather_api_key E)"
    using assms(3) by (simp add: is_enabled_iff)
  ultimately show ?thesis
    by (simp add: fetch_weather_endpoint_def)
qed

theorem upstream_401_witness:
  "fetch_weather (answering (Response 401 None)) 1 2 empty_state =
     (Inl (ValueError (Text invalid_api_key_message)),
      empty_state\<lparr>requests := requests empty_state @ [\<lparr>lat = 1, lon = 2, appid = ''secret''\<rparr>]\<rparr>) \<and>
   fst (fetch_weather_endpoint (answering (Response 401 None)) 1 2 empty_state) =
     Inr (WeatherServiceDisabledResponse False (Text invalid_api_key_message))"
proof -
  have k: "get_api_key (weather_api_key (answering (Response 401 None))) = Inr ''secret''"
    by code_simp
  have m: "get_from_cache (answering (Response 401 None)) (cache empty_state) 1 2 = None"
    by (simp add: get_from_cache_def cache_get_def empty_state_def split: prod.splits)
  have u: "upstream (answering (Response 401 None)) \<lparr>lat = 1, lon = 2, appid = ''secret''\<rparr> =
             Response 401 None"
    by (simp add: answering_def)
  show ?thesis
    by (rule upstream_401 [OF _ _ k m u]) simp_all
qed

text \<open>
  C6. When the payload of the provider has no temperature (\<open>main.temp\<close> is absent or
  \<open>null\<close>, or there is no object \<open>main\<close> to hold it) and the cache had no reading to
  return, \<open>fetch_weather\<close> leaves the cache as it was and returns no reading: its
  result is \<open>None\<close> or an exception. It is \<open>None\<close> when the request was sent and
  answered with success, \<open>main\<close> is absent or an object, \<open>weather\<close> is absent or a
  list that starts with an object, and \<open>wind\<close> is absent or an object.
\<close>

theorem no_temperature_not_cached:
  assumes "temperature_of data = None"
    and "\<forall>q. upstream E q = Response status_code (Some data)"
    and "get_from_cache E (cache s) latitude longitude = None"
  shows "cache (snd (fetch_weather E latitude longitude s)) = cache s \<and>
         (\<forall>w. fst (fetch_weather E latitude longitude s) \<noteq> Inr (Some w)) \<and>
         (- 90 \<le> latitude \<and> latitude \<le> 90 \<and> - 180 \<le> longitude \<and> longitude \<le> 180 \<and>
          is_enabled (weather_api_key E) \<and> 200 \<le> status_code \<and> status_code \<le> 299 \<and>
          data = JObj kvs \<and>
          (map_of kvs ''main'' = None \<or> (\<exists>m. map_of kvs ''main'' = Some (JObj m))) \<and>
          (map_of kvs ''weather'' = None \<and> wd = [] \<or>
           (\<exists>ws. map_of kvs ''weather'' = Some (JList (JObj wd # ws)))) \<and>
          (map_of kvs ''wind'' = None \<and> wn = [] \<or> map_of kvs ''wind'' = Some (JObj wn)) \<longrightarrow>
            fst (fetch_weather E latitude longitude s) = Inr None)"
proof (intro conjI impI)
  have none: "fst (call_provider E k latitude longitude s) \<noteq> Inr (Some w)" for k w
    using call_provider_payload [of E latitude longitude k status_code data s w]
      parse_no_temperature [OF assms(1)] assms(2)
    by auto
  then have same: "cache (snd (call_provider E k latitude longitude s)) = cache s" for k
    by (simp add: call_provider_no_reading)
  from same assms(3) show "cache (snd (fetch_weather E latitude longitude s)) = cache s"
    by (auto simp: fetch_weather_def split: sum.splits)
  from none assms(3) show "\<forall>w. fst (fetch_weather E latitude longitude s) \<noteq> Inr (Some w)"
    by (auto simp: fetch_weather_def split: sum.splits)
next
  assume a: "- 90 \<le> latitude \<and> latitude \<le> 90 \<and> - 180 \<le> longitude \<and> longitude \<le> 180 \<and>
          is_enabled (weather_api_key E) \<and> 200 \<le> status_code \<and> status_code \<le> 299 \<and>
          data = JObj kvs \<and>
          (map_of kvs ''main'' = None \<or> (\<exists>m. map_of kvs ''main'' = Some (JObj m))) \<and>
          (map_of kvs ''weather'' = None \<and> wd = [] \<or>
           (\<exists>ws. map_of kvs ''weather'' = Some (JList (JObj wd # ws)))) \<and>
          (map_of kvs ''wind'' = None \<and> wn = [] \<or> map_of kvs ''wind'' = Some (JObj wn))"
  then have p: "parse_openweather_response (pydantic E) data = Inr None"
    using assms(1) parse_no_temperature_None [of kvs wd wn "pydantic E"] by blast
  from a obtain k where k: "get_api_key (weather_api_key E) = Inr k"
    by (auto simp: is_enabled_iff)
  from a k p assms(2,3) show "fst (fetch_weather E latitude longitude s) = Inr None"
    by (simp add: fetch_weather_def call_provider_def Let_def)
qed

theorem no_temperature_not_cached_witness:
  "cache (snd (fetch_weather (answering (Response 200 (Some payload_no_temp))) 1 2 empty_state)) =
     cache empty_state \<and>
   (\<forall>w. fst (fetch_weather (answering (Response 200 (Some payload_no_temp))) 1 2 empty_state) \<noteq>
      Inr (Some w)) \<and>
   fst (fetch_weather (answering (Response 200 (Some payload_no_temp))) 1 2 empty_state) = Inr None"
proof -
  let ?E = "answering (Response 200 (Some payload_no_temp))"
  have t: "temperature_of payload_no_temp = None"
    by code_simp
  have u: "\<forall>q. upstream ?E q = Response 200 (Some payload_no_temp)"
    by (simp add: answering_def)
  have m: "get_from_cache ?E (cache empty_state) 1 2 = None"
    by (simp add: get_from_cache_def cache_get_def empty_state_def split: prod.splits)
  have en: "is_enabled (weather_api_key ?E)"
    by code_simp
  show ?thesis
    using no_temperature_not_cached [OF t u m, where kvs = "[(''main'', JObj [(''humidity'', JInt 65)])]"
        and wd = "[]" and wn = "[]"] en
    by (simp add: payload_no_temp_def)
qed

text \<open>
  C5, as the code has it. When \<open>fetch_weather\<close> returns no reading (the parse of the
  response failed), the service itself raises nothing, and the endpoint answers its
  caller with an HTTP error of status 500.
\<close>

theorem endpoint_no_reading:
  assumes "fst (fetch_weather E latitude longitude s) = Inr None"
  shows "\<exists>detail. fst (fetch_weather_endpoint E latitude longitude s) =
           Inl (HTTPException 500 detail)"
proof -
  have "is_enabled (weather_api_key E)"
    using assms
    by (cases "get_api_key (weather_api_key E)")
       (auto simp: fetch_weather_def is_enabled_iff split: if_splits)
  with assms show ?thesis
    by (auto simp: fetch_weather_endpoint_def split: prod.splits)
qed

theorem endpoint_no_reading_witness:
  "fst (fetch_weather (answering (Response 200 (Some payload_weather_null))) 1 2 empty_state) =
     Inr None \<and>
   (\<exists>detail. fst (fetch_weather_endpoint (answering (Response 200 (Some payload_weather_null)))
                    1 2 empty_state) = Inl (HTTPException 500 detail))"
proof -
  have n: "fst (fetch_weather (answering (Response 200 (Some payload_weather_null))) 1 2
             empty_state) = Inr None"
    by code_simp
  from endpoint_no_reading [OF n] n show ?thesis
    by simp
qed

text \<open>
  C5 as stated fails: for a response without a temperature the service returns
  \<open>None\<close> and the endpoint raises an \<open>HTTPException\<close> with status 500.
\<close>

theorem endpoint_no_data_counterexample:
  "fst (fetch_weather (answering (Response 200 (Some payload_no_temp))) 1 2 empty_state) =
     Inr None \<and>
   fst (fetch_weather_endpoint (answering (Response 200 (Some payload_no_temp))) 1 2 empty_state) =
     Inl (HTTPException 500 ''An error occurred while fetching weather data'')"
  by code_simp

section \<open>Evaluating the cache key\<close>

lemma floor_rat_divide_numeral [simp]:
  "\<lfloor>(numeral a / numeral b :: rat)\<rfloor> = numeral a div numeral b"
  using floor_divide_of_int_eq [of "numeral a" "numeral b", where ?'a = rat] by simp

lemma floor_rat_minus_divide_numeral [simp]:
  "\<lfloor>(- (numeral a / numeral b) :: rat)\<rfloor> = - numeral a div numeral b"
  using floor_divide_of_int_eq [of "- numeral a" "numeral b", where ?'a = rat] by simp



declare str_nat.simps [simp del]





lemma valid_example: "valid_reading example_reading"
  by code_simp

section \<open>The claims about the cache\<close>

text \<open>
  C10. \<open>_save_to_cache\<close> stores the reading under the key of the coordinates as the
  dict with the single item \<open>result\<close>, the dump of the model, expiring after the TTL.
  Reading it back with \<open>_get_from_cache\<close>, at once or at any time up to the expiry,
  gives a \<open>WeatherData\<close> equal to the one saved, for every reading within the bounds
  of the schema (as every instance is). A live entry whose value is a dict without the
  key \<open>result\<close>, or with \<open>null\<close> under it, reads as \<open>None\<close>.
\<close>

theorem cache_round_trip:
  "save_to_cache E ca latitude longitude w (get_cache_key latitude longitude) =
     Some \<lparr>entry_value = JObj [(''result'', model_dump w)],
           expires_at = now E + CACHE_TTL_SECONDS\<rparr> \<and>
   (valid_reading w \<and> now E' \<le> now E + CACHE_TTL_SECONDS \<longrightarrow>
      get_from_cache E' (save_to_cache E ca latitude longitude w) latitude longitude = Some w) \<and>
   (ca (get_cache_key latitude longitude) = Some e \<and> now E \<le> expires_at e \<and>
    entry_value e = JObj kvs \<and>
    (map_of kvs ''result'' = None \<or> map_of kvs ''result'' = Some JNull) \<longrightarrow>
      get_from_cache E ca latitude longitude = None)"
proof (intro conjI impI)
  show "save_to_cache E ca latitude longitude w (get_cache_key latitude longitude) =
     Some \<lparr>entry_value = JObj [(''result'', model_dump w)],
           expires_at = now E + CACHE_TTL_SECONDS\<rparr>"
    by (rule save_to_cache_entry)
next
  assume "valid_reading w \<and> now E' \<le> now E + CACHE_TTL_SECONDS"
  then show "get_from_cache E' (save_to_cache E ca latitude longitude w) latitude longitude =
               Some w"
    by (simp add: get_after_save)
next
  assume "ca (get_cache_key latitude longitude) = Some e \<and> now E \<le> expires_at e \<and>
    entry_value e = JObj kvs \<and>
    (map_of kvs ''result'' = None \<or> map_of kvs ''result'' = Some JNull)"
  then show "get_from_cache E ca latitude longitude = None"
    by (cases "get_cache_key latitude longitude")
       (auto simp: get_from_cache_def cache_get_def)
qed

theorem cache_round_trip_witness:
  "valid_reading example_reading \<and>
   get_from_cache (answering Failed\<lparr>now := 2800\<rparr>)
     (save_to_cache (answering Failed) Map.empty (377749 / 10000) (- (612097 / 5000))
        example_reading)
     (377749 / 10000) (- (612097 / 5000)) = Some example_reading \<and>
   get_from_cache (answering Failed)
     [get_cache_key 1 2 \<mapsto> \<lparr>entry_value = JObj [(''result'', JNull)], expires_at = 2000\<rparr>] 1 2 =
     None"
proof -
  have v: "valid_reading example_reading"
    by (rule valid_example)
  have t: "now (answering Failed\<lparr>now := 2800\<rparr>) \<le> now (answering Failed) + CACHE_TTL_SECONDS"
    by (simp add: answering_def CACHE_TTL_SECONDS_def)
  have n: "now (answering Failed) \<le>
             expires_at \<lparr>entry_value = JObj [(''result'', JNull)], expires_at = 2000\<rparr>"
    by (simp add: answering_def)
  show ?thesis
    using v t n
      cache_round_trip [of "answering Failed" Map.empty "377749 / 10000" "- (612097 / 5000)"
        example_reading "answering Failed\<lparr>now := 2800\<rparr>"]
      cache_round_trip [of "answering Failed"
        "[get_cache_key 1 2 \<mapsto> \<lparr>entry_value = JObj [(''result'', JNull)], expires_at = 2000\<rparr>]"
        1 2 example_reading "answering Failed"
        "\<lparr>entry_value = JObj [(''result'', JNull)], expires_at = 2000\<rparr>" "[(''result'', JNull)]"]
    by simp
qed




section \<open>Facts about the admin role\<close>

lemma filter_other_id:
  "uid \<notin> user_id ` set users \<Longrightarrow> filter (\<lambda>u. user_id u \<noteq> uid) users = users"
  by (induction users) auto

lemma find_absent:
  "uid \<notin> user_id ` set users \<Longrightarrow> find (\<lambda>u. user_id u = uid) users = None"
  by (induction users) auto

lemma map_other_id:
  "uid \<notin> user_id ` set users \<Longrightarrow>
     map (\<lambda>u. if user_id u = uid then u\<lparr>role := r\<rparr> else u) users = users"
  by (induction users) auto

lemma admin_count_Cons:
  "admin_count (u # users) = (if role u = Admin then 1 else 0) + admin_count users"
  by (simp add: admin_count_def)

lemma find_admin_counted:
  "find (\<lambda>u. user_id u = uid) users = Some u \<Longrightarrow> role u = Admin \<Longrightarrow> 1 \<le> admin_count users"
  by (induction users) (auto simp: admin_count_Cons split: if_splits)

text \<open>The count of admins after a deletion and after a role change, ids being distinct.\<close>

lemma admin_count_delete:
  assumes "distinct (map user_id users)"
  shows "admin_count (filter (\<lambda>u. user_id u \<noteq> uid) users) =
           admin_count users -
             (case find (\<lambda>u. user_id u = uid) users of
                None \<Rightarrow> 0 | Some u \<Rightarrow> if role u = Admin then 1 else 0)"
  using assms
proof (induction users)
  case Nil
  then show ?case by (simp add: admin_count_def)
next
  case (Cons a users)
  show ?case
  proof (cases "user_id a = uid")
    case True
    with Cons.prems have "uid \<notin> user_id ` set users"
      by auto
    with True show ?thesis
      by (simp add: filter_other_id admin_count_Cons)
  next
    case False
    with Cons show ?thesis
      by (auto simp: admin_count_Cons split: option.splits dest: find_admin_counted)
  qed
qed

lemma admin_count_update:
  assumes "distinct (map user_id users)"
  shows "admin_count (map (\<lambda>u. if user_id u = uid then u\<lparr>role := r\<rparr> else u) users) =
           (case find (\<lambda>u. user_id u = uid) users of
              None \<Rightarrow> admin_count users
            | Some u \<Rightarrow> admin_count users - (if role u = Admin then 1 else 0) +
                         (if r = Admin then 1 else 0))"
  using assms
proof (induction users)
  case Nil
  then show ?case by (simp add: admin_count_def)
next
  case (Cons a users)
  show ?case
  proof (cases "user_id a = uid")
    case True
    with Cons.prems have "uid \<notin> user_id ` set users"
      by auto
    with True show ?thesis
      by (simp add: map_other_id admin_count_Cons)
  next
    case False
    with Cons show ?thesis
      by (auto simp: admin_count_Cons split: option.splits dest: find_admin_counted)
  qed
qed

lemma distinct_after_delete:
  "distinct (map user_id users) \<Longrightarrow> distinct (map user_id (filter (\<lambda>u. user_id u \<noteq> uid) users))"
  by (rule distinct_map_filter)

lemma ids_after_update:
  "map user_id (map (\<lambda>u. if user_id u = uid then u\<lparr>role := r\<rparr> else u) users) =
     map user_id users"
  by (induction users) auto

lemma enforce_keeps_admin:
  assumes "distinct (map user_id users)" and "1 \<le> admin_count users"
    and "enforce op users = Inr users'"
  shows "distinct (map user_id users') \<and> 1 \<le> admin_count users'"
proof (cases op)
  case (Delete uid)
  with assms(3) have l: "\<not> is_last_admin uid users"
    and u: "users' = filter (\<lambda>u. user_id u \<noteq> uid) users"
    by (auto simp: delete_user_def split: if_splits)
  from l assms(2) have "1 \<le> admin_count users -
      (case find (\<lambda>u. user_id u = uid) users of
         None \<Rightarrow> 0 | Some u \<Rightarrow> if role u = Admin then 1 else 0)"
    by (auto simp: is_last_admin_def split: option.splits)
  with u assms(1) show ?thesis
    by (simp add: admin_count_delete distinct_after_delete)
next
  case (SetRole uid r)
  with assms(3) have l: "\<not> (r = User \<and> is_last_admin uid users)"
    and u: "users' = map (\<lambda>u. if user_id u = uid then u\<lparr>role := r\<rparr> else u) users"
    by (auto simp: update_role_def split: if_splits)
  from l assms(2) have "1 \<le> (case find (\<lambda>u. user_id u = uid) users of
              None \<Rightarrow> admin_count users
            | Some u \<Rightarrow> admin_count users - (if role u = Admin then 1 else 0) +
                         (if r = Admin then 1 else 0))"
    by (cases r) (auto simp: is_last_admin_def split: option.splits)
  moreover have "distinct (map user_id users')"
    unfolding u ids_after_update by (rule assms(1))
  ultimately show ?thesis
    using assms(1) by (simp add: u admin_count_update)
qed

lemma admin_request_keeps_admin:
  assumes "distinct (map user_id users)" and "1 \<le> admin_count users"
  shows "distinct (map user_id (snd (admin_request op users))) \<and>
         1 \<le> admin_count (snd (admin_request op users))"
proof (cases "enforce op users")
  case (Inl e)
  with assms show ?thesis
    by (cases e) (simp add: admin_request_def)
next
  case (Inr users')
  with enforce_keeps_admin [OF assms Inr] show ?thesis
    by (simp add: admin_request_def)
qed

lemma admin_requests_keep_admin:
  "distinct (map user_id users) \<Longrightarrow> 1 \<le> admin_count users \<Longrightarrow>
     distinct (map user_id (admin_requests ops users)) \<and>
     1 \<le> admin_count (admin_requests ops users)"
proof (induction ops arbitrary: users)
  case Nil
  then show ?case by simp
next
  case (Cons op ops)
  from admin_request_keeps_admin [OF Cons.prems, of op] Cons.IH show ?case
    by simp
qed

subsection \<open>The migration\<close>




section \<open>The claims about the admin role\<close>

text \<open>
  C1. From a store with distinct ids and at least one admin, no sequence of deletions
  and role changes the enforcer answers leaves the store without an admin. A deletion
  that targets the only admin, and a role change of the only admin to \<open>user\<close>, are
  answered with status 400 and a message that contains \<open>last admin\<close>, and leave the
  store as it was; with two or more admins the same operations on an admin are answered
  with status 200 and leave one admin less.
\<close>

theorem last_admin_guard:
  assumes "distinct (map user_id users)" and "1 \<le> admin_count users"
  shows "1 \<le> admin_count (admin_requests ops users) \<and>
         str_contains ''last admin'' last_admin_detail \<and>
         (find (\<lambda>u. user_id u = uid) users = Some u \<and> role u = Admin \<and> admin_count users = 1 \<longrightarrow>
            admin_request (Delete uid) users = ((400, last_admin_detail), users) \<and>
            admin_request (SetRole uid User) users = ((400, last_admin_detail), users)) \<and>
         (find (\<lambda>u. user_id u = uid) users = Some u \<and> role u = Admin \<and> 2 \<le> admin_count users \<longrightarrow>
            fst (fst (admin_request (Delete uid) users)) = 200 \<and>
            admin_count (snd (admin_request (Delete uid) users)) = admin_count users - 1 \<and>
            fst (fst (admin_request (SetRole uid User) users)) = 200 \<and>
            admin_count (snd (admin_request (SetRole uid User) users)) = admin_count users - 1)"
proof (intro conjI impI)
  show "1 \<le> admin_count (admin_requests ops users)"
    using admin_requests_keep_admin [OF assms] by simp
  show "str_contains ''last admin'' last_admin_detail"
    by (simp add: last_admin_detail_def)
next
  assume "find (\<lambda>u. user_id u = uid) users = Some u \<and> role u = Admin \<and> admin_count users = 1"
  then have "is_last_admin uid users"
    by (simp add: is_last_admin_def)
  then show "admin_request (Delete uid) users = ((400, last_admin_detail), users)"
    and "admin_request (SetRole uid User) users = ((400, last_admin_detail), users)"
    by (simp_all add: admin_request_def delete_user_def update_role_def)
next
  assume a: "find (\<lambda>u. user_id u = uid) users = Some u \<and> role u = Admin \<and> 2 \<le> admin_count users"
  then have n: "\<not> is_last_admin uid users"
    by (simp add: is_last_admin_def)
  then show "fst (fst (admin_request (Delete uid) users)) = 200"
    and "fst (fst (admin_request (SetRole uid User) users)) = 200"
    by (simp_all add: admin_request_def delete_user_def update_role_def)
  from n a show "admin_count (snd (admin_request (Delete uid) users)) = admin_count users - 1"
    by (simp add: admin_request_def delete_user_def admin_count_delete [OF assms(1)])
  from n a show "admin_count (snd (admin_request (SetRole uid User) users)) = admin_count users - 1"
    by (simp add: admin_request_def update_role_def admin_count_update [OF assms(1)])
qed

theorem last_admin_guard_witness:
  "1 \<le> admin_count (admin_requests [Delete 3, SetRole 1 User, Delete 1, Delete 2] two_admins) \<and>
   admin_request (Delete 1) one_admin = ((400, last_admin_detail), one_admin) \<and>
   admin_request (SetRole 1 User) one_admin = ((400, last_admin_detail), one_admin) \<and>
   fst (fst (admin_request (Delete 3) two_admins)) = 200 \<and>
   admin_count (snd (admin_request (Delete 3) two_admins)) = admin_count two_admins - 1 \<and>
   fst (fst (admin_request (SetRole 3 User) two_admins)) = 200 \<and>
   admin_count (snd (admin_request (SetRole 3 User) two_admins)) = admin_count two_admins - 1"
proof -
  have d: "distinct (map user_id two_admins)" "distinct (map user_id one_admin)"
    by (simp_all add: two_admins_def one_admin_def mk_user_def)
  have c: "1 \<le> admin_count two_admins" "1 \<le> admin_count one_admin"
    "admin_count one_admin = 1" "2 \<le> admin_count two_admins"
    by (simp_all add: two_admins_def one_admin_def mk_user_def admin_count_def)
  have f: "find (\<lambda>u. user_id u = 1) one_admin = Some (mk_user 1 10 Admin)"
    "find (\<lambda>u. user_id u = 3) two_admins = Some (mk_user 3 30 Admin)"
    "role (mk_user 1 10 Admin) = Admin" "role (mk_user 3 30 Admin) = Admin"
    by (simp_all add: two_admins_def one_admin_def mk_user_def)
  show ?thesis
    using last_admin_guard [OF d(1) c(1),
        of "[Delete 3, SetRole 1 User, Delete 1, Delete 2]" 3 "mk_user 3 30 Admin"]
      last_admin_guard [OF d(2) c(2), of "[]" 1 "mk_user 1 10 Admin"] c f
    by simp
qed



end
